theory Spec2Isabelle
  imports Complex_Main
begin

section \<open>The nutrition formulas of teste.py\<close>

text \<open>
  The formula functions of \<^verbatim>\<open>src/teste.py\<close> (lines 28 to 292) are embedded one by one,
  each under the name it has in the source, with the branches in the order of the source.

  Numbers: a Python \<^verbatim>\<open>float\<close> argument is a \<^typ>\<open>real\<close> and the arithmetic is exact.
  The theorems below are about which branch is taken, which outcome is produced and which
  closed form is evaluated; rounding, infinities and NaN are outside the model.

  Outcomes: a call either raises or returns, and what it returns is either \<^verbatim>\<open>None\<close>
  or a number. A raise is \<open>Inl e\<close>, \<^verbatim>\<open>return None\<close> is \<open>Inr None\<close> and
  \<^verbatim>\<open>return x\<close> is \<open>Inr (Some x)\<close>.
\<close>

subsection \<open>Enumerations (lines 10 to 25)\<close>

datatype Sexo = MASCULINO | FEMININO

datatype Raca = BRANCA | NEGRA

datatype Condicao = OBESIDADE | DESNUTRICAO

datatype NivelAtividade = LEVE_MODERADA | RESTRITA_INTENSA | RESTRICAO_GRAVE

subsection \<open>Outcomes\<close>

text \<open>
  \<open>ValueError msg\<close> is \<^verbatim>\<open>raise ValueError(msg)\<close>. \<open>UnboundLocalError v\<close> is what
  Python raises when the local variable \<open>v\<close> is read before any assignment to it ran.
\<close>

datatype error = ValueError string | UnboundLocalError string

type_synonym result = "error + real option"

subsection \<open>calcular\_peso\_ajustado (lines 28 to 37)\<close>

definition calcular_peso_ajustado :: "real \<Rightarrow> real \<Rightarrow> Condicao \<Rightarrow> result" where
  "calcular_peso_ajustado peso_atual peso_ideal condicao =
     (if peso_atual \<le> 0 \<or> peso_ideal \<le> 0
      then Inl (ValueError ''Pesos devem ser valores positivos'')
      else if condicao = OBESIDADE
      then Inr (Some ((peso_atual - peso_ideal) * 0.25 + peso_ideal))
      else if condicao = DESNUTRICAO
      then Inr (Some ((peso_atual - peso_ideal) * 0.25 + peso_atual))
      else Inr None)"

subsection \<open>estimar\_peso\_crianca (lines 45 to 60)\<close>

text \<open>
  A sex that matches and an ethnicity that matches neither test leaves the inner
  \<^verbatim>\<open>if\<close> without returning and reaches the final \<^verbatim>\<open>return None\<close>.
\<close>

definition estimar_peso_crianca :: "real \<Rightarrow> real \<Rightarrow> Sexo \<Rightarrow> Raca \<Rightarrow> result" where
  "estimar_peso_crianca altura_joelho perimetro_braco sexo raca =
     (if altura_joelho \<le> 0 \<or> perimetro_braco \<le> 0
      then Inl (ValueError ''Medidas devem ser positivas'')
      else if sexo = MASCULINO
      then (if raca = BRANCA
            then Inr (Some (altura_joelho * 0.68 + perimetro_braco * 2.64 - 50.08))
            else if raca = NEGRA
            then Inr (Some (altura_joelho * 0.59 + perimetro_braco * 2.73 - 48.32))
            else Inr None)
      else if sexo = FEMININO
      then (if raca = BRANCA
            then Inr (Some (altura_joelho * 0.77 + perimetro_braco * 2.47 - 50.16))
            else if raca = NEGRA
            then Inr (Some (altura_joelho * 0.71 + perimetro_braco * 2.59 - 50.43))
            else Inr None)
      else Inr None)"

subsection \<open>calcular\_area\_gorda\_braco (lines 118 to 122)\<close>

definition calcular_area_gorda_braco :: "real \<Rightarrow> real \<Rightarrow> result" where
  "calcular_area_gorda_braco circunferencia_braco area_muscular_braco =
     (if circunferencia_braco \<le> 0 \<or> area_muscular_braco \<le> 0
      then Inl (ValueError ''Medidas devem ser positivas'')
      else Inr (Some (0.79 * ((circunferencia_braco / 3.14) ^ 2) - area_muscular_braco)))"

subsection \<open>calcular\_gasto\_energetico\_total (lines 154 to 167)\<close>

text \<open>
  The two factors are \<^verbatim>\<open>Optional[float]\<close> with default \<^verbatim>\<open>None\<close>, and the source
  tests them by truth value: \<^verbatim>\<open>None\<close> and \<^verbatim>\<open>0.0\<close> are false, every other number
  is true.
\<close>

fun truthy :: "real option \<Rightarrow> bool" where
  "truthy None = False"
| "truthy (Some x) = (x \<noteq> 0)"

definition calcular_gasto_energetico_total :: "real \<Rightarrow> real option \<Rightarrow> real option \<Rightarrow> result" where
  "calcular_gasto_energetico_total ere fator_atividade fator_estresse =
     (if ere \<le> 0
      then Inl (ValueError ''ERE deve ser positivo'')
      else if truthy fator_atividade \<and> truthy fator_estresse
      then Inl (ValueError ''Use apenas fator de atividade OU fator de estresse'')
      else if truthy fator_atividade
      then Inr (Some (ere * the fator_atividade))
      else if truthy fator_estresse
      then Inr (Some (ere * the fator_estresse))
      else Inr (Some ere))"

subsection \<open>calcular\_requerimento\_energetico (lines 169 to 193)\<close>

definition calcular_requerimento_energetico ::
  "real \<Rightarrow> real \<Rightarrow> real \<Rightarrow> Sexo \<Rightarrow> real \<Rightarrow> result" where
  "calcular_requerimento_energetico idade peso estatura sexo fator_atividade =
     (if idade < 0 \<or> peso \<le> 0 \<or> estatura \<le> 0 \<or> fator_atividade \<le> 0
      then Inl (ValueError ''Valores devem ser positivos'')
      else if idade \<le> 0.25 then Inr (Some (89 * peso - 100 + 175))
      else if idade \<le> 0.5 then Inr (Some (89 * peso - 100 + 56))
      else if idade \<le> 1 then Inr (Some (89 * peso - 100 + 22))
      else if idade \<le> 2.92 then Inr (Some (89 * peso - 100 + 20))
      else if 3 \<le> idade \<and> idade < 9
      then (if sexo = MASCULINO
            then Inr (Some (88.5 - 61.9 * idade
                            + fator_atividade * (26.7 * peso + 903 * estatura) + 20))
            else Inr (Some (135.3 - 30.8 * idade
                            + fator_atividade * (10 * peso + 934 * estatura) + 20)))
      else if 9 \<le> idade \<and> idade \<le> 18
      then (if sexo = MASCULINO
            then Inr (Some (88.5 - 61.9 * idade
                            + fator_atividade * (26.7 * peso + 903 * estatura) + 25))
            else Inr (Some (135.3 - 30.8 * idade
                            + fator_atividade * (10 * peso + 934 * estatura) + 25)))
      else Inr None)"

subsection \<open>calcular\_necessidade\_pc (lines 216 to 236)\<close>

text \<open>
  The local variable \<^verbatim>\<open>base\<close> is assigned inside the age tests only. It is modelled as
  an option: \<open>None\<close> while no assignment has run. The last line reads it, and reading an
  unassigned local raises.
\<close>

definition calcular_necessidade_pc ::
  "real \<Rightarrow> real \<Rightarrow> Sexo \<Rightarrow> real \<Rightarrow> real \<Rightarrow> result" where
  "calcular_necessidade_pc peso altura sexo idade fator_estresse =
     (if peso \<le> 0 \<or> altura \<le> 0 \<or> idade < 0 \<or> fator_estresse \<le> 0
      then Inl (ValueError ''Valores devem ser positivos'')
      else
        let base =
          (if sexo = FEMININO
           then (if idade \<le> 3 then Some (16.25 * peso + 1023.2 * altura - 413.5)
                 else if idade \<le> 10 then Some (16.97 * peso + 161.8 * altura + 371.2)
                 else if idade \<le> 18 then Some (8.365 * peso + 465 * altura + 200)
                 else None)
           else (if idade \<le> 3 then Some (0.167 * peso + 1517.4 * altura - 617.6)
                 else if idade \<le> 10 then Some (19.6 * peso + 130.3 * altura + 414.9)
                 else if idade \<le> 18 then Some (16.25 * peso + 137.2 * altura + 515.5)
                 else None))
        in (case base of
              None \<Rightarrow> Inl (UnboundLocalError ''base'')
            | Some b \<Rightarrow> Inr (Some (b * fator_estresse))))"

subsection \<open>necessidade\_energetica\_pc\_5\_11 (lines 238 to 246)\<close>

text \<open>
  The activity level arrives as a \<^verbatim>\<open>str\<close> and is compared with the \<^verbatim>\<open>.value\<close> of the
  three members of \<^verbatim>\<open>NivelAtividade\<close>. A Python string is modelled by its UTF-8 bytes, on
  which equality agrees with equality of strings; the letters beyond ASCII are written as
  their two bytes.
\<close>

fun NivelAtividade_value :: "NivelAtividade \<Rightarrow> string" where
  "NivelAtividade_value LEVE_MODERADA = ''leve a moderada''"
| "NivelAtividade_value RESTRITA_INTENSA = ''restrita intensa''"
| "NivelAtividade_value RESTRICAO_GRAVE =
     ''restri'' @ [CHR 0xC3, CHR 0xA7, CHR 0xC3, CHR 0xA3] @ ''o f''
       @ [CHR 0xC3, CHR 0xAD] @ ''sica grave''"

definition necessidade_energetica_pc_5_11 :: "real \<Rightarrow> string \<Rightarrow> result" where
  "necessidade_energetica_pc_5_11 altura nivel_atividade =
     (if nivel_atividade = NivelAtividade_value LEVE_MODERADA
      then Inr (Some (13.9 * altura))
      else if nivel_atividade = NivelAtividade_value RESTRITA_INTENSA
      then Inr (Some (10 * altura))
      else if nivel_atividade = NivelAtividade_value RESTRICAO_GRAVE
      then Inr (Some (11.1 * altura))
      else Inr (Some 0))"

subsection \<open>necessidade\_energetica\_pc\_estaveis (lines 248 to 256)\<close>

text \<open>
  The motor condition is a \<^verbatim>\<open>str\<close> compared with three literals. The source has no
  enumeration for it; the caller (lines 972 to 985) offers exactly these three strings, in
  the order no dysfunction, ambulatory, non-ambulatory. \<open>MotorCondition\<close> names them in that
  order and \<open>MotorCondition_str\<close> gives the literal of each.
\<close>

definition sem_disfuncao_motora :: string where
  "sem_disfuncao_motora =
     ''sem disfun'' @ [CHR 0xC3, CHR 0xA7, CHR 0xC3, CHR 0xA3] @ ''o motora''"

definition nao_deambular :: string where
  "nao_deambular = ''n'' @ [CHR 0xC3, CHR 0xA3] @ ''o deambular (caminhar)''"

definition nao_apresentar_disfuncao_mas_deambular :: string where
  "nao_apresentar_disfuncao_mas_deambular =
     ''n'' @ [CHR 0xC3, CHR 0xA3] @ ''o apresentar disfun''
       @ [CHR 0xC3, CHR 0xA7, CHR 0xC3, CHR 0xA3] @ ''o mas deambular''"

datatype MotorCondition = NoDysfunction | Ambulatory | NonAmbulatory

fun MotorCondition_str :: "MotorCondition \<Rightarrow> string" where
  "MotorCondition_str NoDysfunction = sem_disfuncao_motora"
| "MotorCondition_str Ambulatory = nao_apresentar_disfuncao_mas_deambular"
| "MotorCondition_str NonAmbulatory = nao_deambular"

definition necessidade_energetica_pc_estaveis :: "real \<Rightarrow> string \<Rightarrow> result" where
  "necessidade_energetica_pc_estaveis altura condicao_motora =
     (if condicao_motora = sem_disfuncao_motora
      then Inr (Some (15 * altura))
      else if condicao_motora = nao_deambular
      then Inr (Some (11 * altura))
      else if condicao_motora = nao_apresentar_disfuncao_mas_deambular
      then Inr (Some (14 * altura))
      else Inr (Some 0))"

subsection \<open>geb\_critica (lines 272 to 274)\<close>

definition geb_critica :: "real \<Rightarrow> real \<Rightarrow> real \<Rightarrow> result" where
  "geb_critica idade_meses peso temp_c =
     Inr (Some (((17 * idade_meses) + (48 * peso) + (292 * temp_c) - 9677) * 0.239))"

subsection \<open>tmb\_schofield (lines 276 to 292)\<close>

definition tmb_schofield :: "real \<Rightarrow> real \<Rightarrow> real \<Rightarrow> Sexo \<Rightarrow> result" where
  "tmb_schofield peso estatura idade sexo =
     (if sexo = MASCULINO
      then (if idade \<le> 3 then Inr (Some (54.48 * peso - 30.33))
            else if idade \<le> 10 then Inr (Some (22.7 * peso + 505))
            else if idade \<le> 18 then Inr (Some (13.4 * peso + 693))
            else Inr None)
      else (if idade \<le> 3 then Inr (Some (58.29 * peso - 31.05))
            else if idade \<le> 10 then Inr (Some (20.3 * peso + 486))
            else if idade \<le> 18 then Inr (Some (17.7 * peso + 659))
            else Inr None))"

section \<open>Auxiliary facts\<close>

subsection \<open>The three motor-condition literals are pairwise different\<close>

lemma MotorCondition_str_distinct:
  "sem_disfuncao_motora \<noteq> nao_deambular"
  "sem_disfuncao_motora \<noteq> nao_apresentar_disfuncao_mas_deambular"
  "nao_apresentar_disfuncao_mas_deambular \<noteq> nao_deambular"
  by (simp_all add: sem_disfuncao_motora_def nao_deambular_def
        nao_apresentar_disfuncao_mas_deambular_def)

subsection \<open>The constant 3.14 lies strictly below \<open>\<pi>\<close>\<close>

text \<open>
  The cosine of 1.57 is positive: its Maclaurin polynomial of degree 10 at 1.57 exceeds
  the bound on the remainder of order 12. Since the cosine is not positive from
  \<open>\<pi>/2\<close> up to \<open>\<pi>\<close>, this puts 1.57 below \<open>\<pi>/2\<close>.
\<close>

lemma sum_lessThan_12:
  "(\<Sum>m<12. f m) =
     f 0 + f 1 + f 2 + f 3 + f 4 + f 5 + f 6 + f 7 + f 8 + f 9 + f 10 + f (11::nat)"
  for f :: "nat \<Rightarrow> real"
proof -
  have "{..<12::nat} = {0, 1, 2, 3, 4, 5, 6, 7, 8, 9, 10, 11}"
    by (auto; arith)
  then show ?thesis by simp
qed

lemma cos_coeff_sum_12:
  "(\<Sum>m<12. cos_coeff m * x ^ m) =
     1 - x^2 / 2 + x^4 / 24 - x^6 / 720 + x^8 / 40320 - x^10 / 3628800"
  for x :: real
  unfolding sum_lessThan_12 by (simp add: cos_coeff_def fact_numeral)

lemma cos_157_pos: "0 < cos (1.57 :: real)"
proof -
  obtain t :: real where
    eq: "cos 1.57 = (\<Sum>m<12. cos_coeff m * (1.57::real) ^ m)
           + (cos (t + 1/2 * real (12::nat) * pi) / fact 12) * 1.57 ^ 12"
    using Maclaurin_cos_expansion [of "1.57" 12] by blast
  define c where "c = cos (t + 1/2 * real (12::nat) * pi)"
  have c: "- 1 \<le> c" by (simp add: c_def)
  have "(c / fact 12) * (1.57::real) ^ 12 \<ge> - (1.57 ^ 12 / fact 12)"
  proof -
    have "(c / fact 12) * (1.57::real) ^ 12 = c * (1.57 ^ 12 / fact 12)" by simp
    also have "\<dots> \<ge> (- 1) * (1.57 ^ 12 / fact 12)"
      by (rule mult_right_mono [OF c]) simp
    finally show ?thesis by simp
  qed
  moreover have "(\<Sum>m<12. cos_coeff m * (1.57::real) ^ m) - (1.57 ^ 12 / fact 12) > 0"
    unfolding cos_coeff_sum_12 by (simp add: fact_numeral power_divide)
  ultimately show ?thesis using eq unfolding c_def by linarith
qed

lemma pi_gt_314: "3.14 < pi"
proof (rule ccontr)
  assume "\<not> 3.14 < pi"
  then have le: "pi / 2 \<le> 1.57" by simp
  have "1.57 \<le> pi" using pi_ge_two by simp
  with le have "cos 1.57 \<le> cos (pi / 2)"
    by (intro cos_monotone_0_pi_le) simp_all
  with cos_157_pos show False by simp
qed

section \<open>Properties\<close>

subsection \<open>Energy need by motor condition\<close>

text \<open>
  Claim C1 as stated gives the ambulatory condition the coefficient 11 and the
  non-ambulatory condition the coefficient 14. At a height of 100 cm the function returns
  1400 for the ambulatory literal, not 1100.
\<close>

theorem necessidade_energetica_pc_estaveis_ambulatory_counterexample:
  "necessidade_energetica_pc_estaveis 100 (MotorCondition_str Ambulatory) = Inr (Some 1400)
   \<and> necessidade_energetica_pc_estaveis 100 (MotorCondition_str Ambulatory)
       \<noteq> Inr (Some (11 * 100))"
  using MotorCondition_str_distinct
  by (simp add: necessidade_energetica_pc_estaveis_def)

text \<open>
  Claim C1, amended. For every positive height, \<open>necessidade_energetica_pc_estaveis\<close>
  multiplies the height by the coefficient of the motor condition: 15 without motor
  dysfunction, 14 for the ambulatory condition and 11 for the non-ambulatory condition.
\<close>

theorem necessidade_energetica_pc_estaveis_coefficients:
  "0 < altura \<Longrightarrow>
   necessidade_energetica_pc_estaveis altura (MotorCondition_str mc) =
     Inr (Some ((case mc of NoDysfunction \<Rightarrow> 15 | Ambulatory \<Rightarrow> 14 | NonAmbulatory \<Rightarrow> 11)
                * altura))"
  using MotorCondition_str_distinct
  by (cases mc) (simp_all add: necessidade_energetica_pc_estaveis_def)

text \<open>The amended claim C1 at a height of 120 cm, non-ambulatory.\<close>

theorem necessidade_energetica_pc_estaveis_coefficients_witness:
  "0 < (120::real) \<and>
   necessidade_energetica_pc_estaveis 120 (MotorCondition_str NonAmbulatory) = Inr (Some 1320)"
  using necessidade_energetica_pc_estaveis_coefficients [of 120 NonAmbulatory] by simp

subsection \<open>Total energy expenditure\<close>

text \<open>
  Claim C2 as stated ties the invalid-combination failure to both factors being above 1.0
  and puts no condition on the basal rate. With a basal rate of 1500 and both factors at
  0.5 the call fails with that error although neither factor exceeds 1.0; with a basal
  rate of 0 and no factor the call fails instead of returning the basal rate.
\<close>

theorem calcular_gasto_energetico_total_below_neutral_counterexample:
  "calcular_gasto_energetico_total 1500 (Some 0.5) (Some 0.5) =
     Inl (ValueError ''Use apenas fator de atividade OU fator de estresse'')
   \<and> \<not> (1 < (0.5::real))
   \<and> calcular_gasto_energetico_total 0 None None = Inl (ValueError ''ERE deve ser positivo'')"
  by (simp add: calcular_gasto_energetico_total_def)

text \<open>
  Claim C2, amended. For a positive basal rate, \<open>calcular_gasto_energetico_total\<close> fails
  with the invalid-combination error if and only if both factors are supplied and both
  are nonzero; with no factor it returns the basal rate unchanged; with exactly one factor,
  nonzero, it returns the basal rate multiplied by that factor.
\<close>

theorem calcular_gasto_energetico_total_outcomes:
  "0 < ere \<Longrightarrow> a \<noteq> 0 \<Longrightarrow> b \<noteq> 0 \<Longrightarrow>
   (calcular_gasto_energetico_total ere fator_atividade fator_estresse =
      Inl (ValueError ''Use apenas fator de atividade OU fator de estresse'')
    \<longleftrightarrow> fator_atividade \<notin> {None, Some 0} \<and> fator_estresse \<notin> {None, Some 0})
   \<and> calcular_gasto_energetico_total ere None None = Inr (Some ere)
   \<and> calcular_gasto_energetico_total ere (Some a) None = Inr (Some (ere * a))
   \<and> calcular_gasto_energetico_total ere None (Some b) = Inr (Some (ere * b))"
  by (cases fator_atividade; cases fator_estresse)
     (simp_all add: calcular_gasto_energetico_total_def)

text \<open>The amended claim C2 at a basal rate of 1500 with the factors 1.2 and 1.5.\<close>

theorem calcular_gasto_energetico_total_outcomes_witness:
  "0 < (1500::real) \<and> (1.2::real) \<noteq> 0 \<and> (1.5::real) \<noteq> 0
   \<and> calcular_gasto_energetico_total 1500 (Some 1.2) (Some 1.5) =
       Inl (ValueError ''Use apenas fator de atividade OU fator de estresse'')
   \<and> calcular_gasto_energetico_total 1500 None None = Inr (Some 1500)
   \<and> calcular_gasto_energetico_total 1500 (Some 1.2) None = Inr (Some 1800)
   \<and> calcular_gasto_energetico_total 1500 None (Some 1.5) = Inr (Some 2250)"
  using calcular_gasto_energetico_total_outcomes [of 1500 "1.2" "1.5" "Some 1.2" "Some 1.5"]
  by simp

subsection \<open>Cerebral-palsy energy need above 18 years\<close>

text \<open>
  Claim C3 expects the no-result outcome for an age above 18. For a boy of 19 years,
  20 kg, 1.2 m and stress factor 1, no age test assigns \<open>base\<close> and the call raises
  \<open>UnboundLocalError\<close> where the claim expects \<open>Inr None\<close>.
\<close>

theorem calcular_necessidade_pc_age_19_raises:
  "calcular_necessidade_pc 20 1.2 MASCULINO 19 1 = Inl (UnboundLocalError ''base'')"
  by (simp add: calcular_necessidade_pc_def)

subsection \<open>Pediatric energy requirement: the age bands\<close>

text \<open>
  Claim C4 as stated promises a number for every age in [0, 18] and the no-result outcome
  for a negative age. A negative age fails the validation instead, and the age 2.95,
  between the band ending at 2.92 and the band starting at 3, gives no result.
\<close>

theorem calcular_requerimento_energetico_bands_counterexample:
  "calcular_requerimento_energetico (- 1) 10 1 MASCULINO 1 =
     Inl (ValueError ''Valores devem ser positivos'')
   \<and> calcular_requerimento_energetico 2.95 10 1 MASCULINO 1 = Inr None"
  by (simp add: calcular_requerimento_energetico_def)

text \<open>
  Claim C4, amended. With positive weight, height and activity factor and either sex,
  \<open>calcular_requerimento_energetico\<close> returns a number for every age in [0, 2.92] and in
  [3, 18], gives the no-result outcome for every age above 18, and fails with the
  validation error for every negative age.
\<close>

theorem calcular_requerimento_energetico_bands:
  "0 < peso \<Longrightarrow> 0 < estatura \<Longrightarrow> 0 < fator_atividade \<Longrightarrow>
   (0 \<le> idade1 \<and> idade1 \<le> 2.92) \<or> (3 \<le> idade1 \<and> idade1 \<le> 18) \<Longrightarrow>
   18 < idade2 \<Longrightarrow> idade3 < 0 \<Longrightarrow>
   (\<exists>v. calcular_requerimento_energetico idade1 peso estatura sexo fator_atividade
          = Inr (Some v))
   \<and> calcular_requerimento_energetico idade2 peso estatura sexo fator_atividade = Inr None
   \<and> calcular_requerimento_energetico idade3 peso estatura sexo fator_atividade =
       Inl (ValueError ''Valores devem ser positivos'')"
  by (auto simp add: calcular_requerimento_energetico_def)

text \<open>
  The amended claim C4 for a girl of 10 kg and 1 m with activity factor 1.5, at the ages
  5, 19 and -1.
\<close>

theorem calcular_requerimento_energetico_bands_witness:
  "0 < (10::real) \<and> 0 < (1::real) \<and> 0 < (1.5::real)
   \<and> ((0 \<le> (5::real) \<and> (5::real) \<le> 2.92) \<or> (3 \<le> (5::real) \<and> (5::real) \<le> 18))
   \<and> 18 < (19::real) \<and> (- 1::real) < 0
   \<and> (\<exists>v. calcular_requerimento_energetico 5 10 1 FEMININO 1.5 = Inr (Some v))
   \<and> calcular_requerimento_energetico 19 10 1 FEMININO 1.5 = Inr None
   \<and> calcular_requerimento_energetico (- 1) 10 1 FEMININO 1.5 =
       Inl (ValueError ''Valores devem ser positivos'')"
  using calcular_requerimento_energetico_bands [of 10 1 "1.5" 5 19 "- 1" FEMININO] by simp

subsection \<open>Basal expenditure of the critically ill child\<close>

text \<open>
  Claim C5 expects a validation failure for a weight that is not positive. At 12 months,
  -5 kg and 37 degrees \<open>geb_critica\<close> returns the computed value 260.749.
\<close>

theorem geb_critica_negative_weight_computes:
  "geb_critica 12 (- 5) 37 = Inr (Some 260.749)"
  by (simp add: geb_critica_def)

subsection \<open>Energy need by activity level, 5 to 11 years\<close>

text \<open>
  Claim C6 as stated expects the absent result for an activity level outside the three
  defined values. For the level \<^verbatim>\<open>sedentario\<close> the function returns the number 0.
\<close>

theorem necessidade_energetica_pc_5_11_unknown_level_counterexample:
  "necessidade_energetica_pc_5_11 120 ''sedentario'' = Inr (Some 0)
   \<and> necessidade_energetica_pc_5_11 120 ''sedentario'' \<noteq> Inr None"
  by (simp add: necessidade_energetica_pc_5_11_def)

text \<open>
  Claim C6, amended. When the activity level is none of the three values of
  \<open>NivelAtividade\<close>, \<open>necessidade_energetica_pc_5_11\<close> returns the number 0, for every
  height.
\<close>

theorem necessidade_energetica_pc_5_11_unknown_level:
  "nivel_atividade \<noteq> NivelAtividade_value LEVE_MODERADA \<Longrightarrow>
   nivel_atividade \<noteq> NivelAtividade_value RESTRITA_INTENSA \<Longrightarrow>
   nivel_atividade \<noteq> NivelAtividade_value RESTRICAO_GRAVE \<Longrightarrow>
   necessidade_energetica_pc_5_11 altura nivel_atividade = Inr (Some 0)"
  by (simp add: necessidade_energetica_pc_5_11_def)

text \<open>The amended claim C6 at the level \<^verbatim>\<open>sedentario\<close> and a height of 120 cm.\<close>

theorem necessidade_energetica_pc_5_11_unknown_level_witness:
  "''sedentario'' \<noteq> NivelAtividade_value LEVE_MODERADA
   \<and> ''sedentario'' \<noteq> NivelAtividade_value RESTRITA_INTENSA
   \<and> ''sedentario'' \<noteq> NivelAtividade_value RESTRICAO_GRAVE
   \<and> necessidade_energetica_pc_5_11 120 ''sedentario'' = Inr (Some 0)"
  using necessidade_energetica_pc_5_11_unknown_level [of "''sedentario''" 120] by simp

subsection \<open>Arm fat area\<close>

text \<open>
  Claim C7 as stated divides the circumference by \<open>\<pi>\<close>. At a circumference of 3.14 and
  a muscle area of 1 the function returns -0.21, which differs from
  \<open>0.79 (3.14/\<pi>)\<^sup>2 - 1\<close> because 3.14 is smaller than \<open>\<pi>\<close>.
\<close>

theorem calcular_area_gorda_braco_pi_counterexample:
  "calcular_area_gorda_braco 3.14 1 = Inr (Some (- 0.21))
   \<and> calcular_area_gorda_braco 3.14 1 \<noteq> Inr (Some (0.79 * (3.14 / pi)\<^sup>2 - 1))"
proof -
  have val: "calcular_area_gorda_braco 3.14 1 = Inr (Some (- 0.21))"
    by (simp add: calcular_area_gorda_braco_def)
  have "0 < 3.14 / pi" by simp
  moreover have "3.14 / pi < 1" using pi_gt_314 by simp
  ultimately have "(3.14 / pi)\<^sup>2 < 1"
    by (simp add: power_less_one_iff)
  then have "0.79 * (3.14 / pi)\<^sup>2 - 1 < - 0.21" by simp
  then have "0.79 * (3.14 / pi)\<^sup>2 - 1 \<noteq> - 0.21" by simp
  with val show ?thesis by simp
qed

text \<open>
  Claim C7, amended. For every positive arm circumference and arm muscle area,
  \<open>calcular_area_gorda_braco\<close> returns 0.79 times the square of the circumference divided
  by the constant 3.14, minus the muscle area.
\<close>

theorem calcular_area_gorda_braco_formula:
  "0 < circunferencia_braco \<Longrightarrow> 0 < area_muscular_braco \<Longrightarrow>
   calcular_area_gorda_braco circunferencia_braco area_muscular_braco =
     Inr (Some (0.79 * (circunferencia_braco / 3.14)\<^sup>2 - area_muscular_braco))"
  by (simp add: calcular_area_gorda_braco_def)

text \<open>The amended claim C7 at a circumference of 31.4 and a muscle area of 40.\<close>

theorem calcular_area_gorda_braco_formula_witness:
  "0 < (31.4::real) \<and> 0 < (40::real) \<and> calcular_area_gorda_braco 31.4 40 = Inr (Some 39)"
  using calcular_area_gorda_braco_formula [of "31.4" 40] by (simp add: power2_eq_square)

subsection \<open>Estimated weight of a child\<close>

text \<open>
  Claim C10. For either sex, either ethnicity and positive knee height and arm
  circumference, \<open>estimar_peso_crianca\<close> returns a number: no path
  through the tests on sex and ethnicity falls through to the final \<^verbatim>\<open>return None\<close>.
\<close>

theorem estimar_peso_crianca_numeric:
  "0 < altura_joelho \<Longrightarrow> 0 < perimetro_braco \<Longrightarrow>
   \<exists>peso. estimar_peso_crianca altura_joelho perimetro_braco sexo raca = Inr (Some peso)"
  by (cases sexo; cases raca) (simp_all add: estimar_peso_crianca_def)

text \<open>Claim C10 at a knee height of 45, an arm circumference of 20, female, black.\<close>

theorem estimar_peso_crianca_numeric_witness:
  "0 < (45::real) \<and> 0 < (20::real)
   \<and> (\<exists>peso. estimar_peso_crianca 45 20 FEMININO NEGRA = Inr (Some peso))"
  using estimar_peso_crianca_numeric [of 45 20 FEMININO NEGRA] by simp


subsection \<open>Adjusted weight at the ideal weight\<close>

text \<open>
  Claim C8. For either condition and a positive weight that is both the actual and the
  ideal weight, \<open>calcular_peso_ajustado\<close> returns that weight: the obesity branch and the
  malnutrition branch give the same value there.
\<close>

theorem calcular_peso_ajustado_at_ideal:
  "0 < peso \<Longrightarrow> calcular_peso_ajustado peso peso condicao = Inr (Some peso)"
  by (cases condicao) (simp_all add: calcular_peso_ajustado_def)

theorem calcular_peso_ajustado_at_ideal_witness:
  "0 < (70::real) \<and> calcular_peso_ajustado 70 70 DESNUTRICAO = Inr (Some 70)"
  using calcular_peso_ajustado_at_ideal [of 70 DESNUTRICAO] by simp

subsection \<open>The Schofield equation ignores the height\<close>

text \<open>
  Claim C9. For every weight, age and sex, \<open>tmb_schofield\<close> gives the same outcome for
  any two heights: no branch of the three age bands reads the \<open>estatura\<close> argument.
\<close>

theorem tmb_schofield_height_independent:
  "tmb_schofield peso estatura1 idade sexo = tmb_schofield peso estatura2 idade sexo"
  by (simp add: tmb_schofield_def)

end
